theory Spec2Isabelle
  imports
    Complex_Main
    "HOL-Library.Char_ord"
    "HOL-Library.List_Lexorder"
    "HOL-Library.Multiset"
    "HOL-Library.Stream"
    "HOL-Library.Sublist"
begin

section \<open>The news aggregator: cache and retrieval pipeline\<close>

text \<open>
  The development embeds \<^verbatim>\<open>src/utils/cache.js\<close> and
  \<^verbatim>\<open>src/services/newsService.js\<close>.

  Conventions of the embedding.
  \<^item> A JavaScript string is a \<^typ>\<open>string\<close>: a list of code units, here the code
    units below 256. The order on strings is the lexicographic order on code units
    (\<open>List_Lexorder\<close> over \<open>Char_ord\<close>), which is the order
    \<^verbatim>\<open>Array.prototype.sort\<close> uses without a comparator.
  \<^item> Time values are integers (milliseconds since the epoch), as \<^verbatim>\<open>Date.now()\<close>
    returns them; they are taken to lie in the range of valid dates, where
    \<^verbatim>\<open>toISOString\<close> does not throw. The result of \<^verbatim>\<open>Math.random()\<close> is a real
    number: the double is idealised, and no statement depends on its rounding.
  \<^item> The clock and the random generator are effects: the world holds the stream of the
    readings still to come, and every \<^verbatim>\<open>Date.now()\<close>, \<^verbatim>\<open>new Date()\<close> and
    \<^verbatim>\<open>Math.random()\<close> consumes one element, in the source's evaluation order.
  \<^item> An array passed to a function is passed by reference. Where the function
    changes it in place, the model returns the array as the call leaves it.
  \<^item> \<^verbatim>\<open>console.log\<close>, \<^verbatim>\<open>console.warn\<close> and \<^verbatim>\<open>console.error\<close> are not modelled.
\<close>

subsection \<open>JavaScript values that occur in articles\<close>

text \<open>
  An article field holds \<^verbatim>\<open>null\<close> (or is absent), a string, or the string that
  \<^verbatim>\<open>new Date(t).toISOString()\<close> yields for the time value \<open>t\<close>. The last is kept
  symbolic: \<open>IsoString t\<close> stands for the ISO-8601 rendering of \<open>t\<close>, which is
  a different string for each valid time value.
\<close>

datatype jsval = Null | Str string | IsoString int

subsection \<open>The world: clock, random generator, network log\<close>

text \<open>
  \<open>clock\<close> and \<open>random\<close> are the readings and draws still to come. \<open>requests\<close>
  is the log of the HTTP requests made so far, as pairs of provider and query: it is
  written by the two fetch functions and read by no function.
\<close>

record world =
  clock :: "int stream"
  random :: "real stream"
  requests :: "(string \<times> string) list"

text \<open>\<^verbatim>\<open>Date.now()\<close>: the next reading of the clock.\<close>

definition Date_now :: "world \<Rightarrow> int \<times> world" where
  "Date_now w = (shd (clock w), w\<lparr>clock := stl (clock w)\<rparr>)"

text \<open>\<^verbatim>\<open>Math.random()\<close>: the next draw of the generator.\<close>

definition Math_random :: "world \<Rightarrow> real \<times> world" where
  "Math_random w = (shd (random w), w\<lparr>random := stl (random w)\<rparr>)"

text \<open>
  \<^verbatim>\<open>new Date(x)\<close> for a number \<open>x\<close> keeps the integral part of \<open>x\<close>
  (truncation towards zero).
\<close>

definition time_clip :: "real \<Rightarrow> int" where
  "time_clip x = (if 0 \<le> x then \<lfloor>x\<rfloor> else \<lceil>x\<rceil>)"

subsection \<open>Cache (\<^verbatim>\<open>src/utils/cache.js\<close>)\<close>

record 'a entry =
  data :: 'a
  expiresAt :: int
  cachedAt :: jsval

record 'a cache_state =
  cache :: "string \<rightharpoonup> 'a entry"
  ttl :: int

text \<open>\<^verbatim>\<open>config.cache.ttl\<close>: 5 minutes in milliseconds.\<close>

definition config_cache_ttl :: int where
  "config_cache_ttl = 5 * 60 * 1000"

text \<open>\<^verbatim>\<open>new Cache()\<close>, the singleton the module exports.\<close>

definition new_Cache :: "'a cache_state" where
  "new_Cache = \<lparr>cache = Map.empty, ttl = config_cache_ttl\<rparr>"

text \<open>\<^verbatim>\<open>Array.prototype.join\<close> on an array of strings.\<close>

fun join :: "string \<Rightarrow> string list \<Rightarrow> string" where
  "join sep [] = []"
| "join sep [x] = x"
| "join sep (x # y # ys) = x @ sep @ join sep (y # ys)"

text \<open>
  \<^verbatim>\<open>generateKey(preferences)\<close>. The argument is \<open>None\<close> for \<^verbatim>\<open>null\<close> or
  \<^verbatim>\<open>undefined\<close>. \<^verbatim>\<open>preferences.sort()\<close> sorts the array in place and returns it, so
  the function returns the key together with the argument as the call leaves it.
\<close>

definition generateKey :: "string list option \<Rightarrow> string \<times> string list option" where
  "generateKey preferences =
     (case preferences of
        None \<Rightarrow> (''news:general'', None)
      | Some ps \<Rightarrow>
          if length ps = 0 then (''news:general'', Some ps)
          else (''news:'' @ join '','' (sort ps), Some (sort ps)))"

text \<open>
  \<^verbatim>\<open>get(key)\<close>: the clock is read only when an entry is found; an expired entry is
  deleted. The result is the data (\<open>None\<close> for \<^verbatim>\<open>null\<close>), the cache and the world.
\<close>

definition get :: "'a cache_state \<Rightarrow> string \<Rightarrow> world \<Rightarrow> 'a option \<times> 'a cache_state \<times> world" where
  "get c key w =
     (case cache c key of
        None \<Rightarrow> (None, c, w)
      | Some item \<Rightarrow>
          (let (now, w') = Date_now w
           in if now > expiresAt item
              then (None, c\<lparr>cache := (cache c)(key := None)\<rparr>, w')
              else (Some (data item), c, w')))"

text \<open>
  \<^verbatim>\<open>set(key, data, customTtl)\<close>: \<open>customTtl\<close> is \<open>None\<close> when the argument is
  left out. \<^verbatim>\<open>customTtl || this.ttl\<close> takes the custom value only when it is truthy,
  that is, given and not zero. The clock is read twice: for \<open>expiresAt\<close> and for
  \<open>cachedAt\<close>.
\<close>

definition set_cache :: "'a cache_state \<Rightarrow> string \<Rightarrow> 'a \<Rightarrow> int option \<Rightarrow> world \<Rightarrow> 'a cache_state \<times> world" where
  "set_cache c key d customTtl w =
     (let ttl' = (case customTtl of
                    None \<Rightarrow> ttl c
                  | Some t \<Rightarrow> if t \<noteq> 0 then t else ttl c);
          (now, w1) = Date_now w;
          (now', w2) = Date_now w1
      in (c\<lparr>cache := (cache c)(key \<mapsto>
            \<lparr>data = d, expiresAt = now + ttl', cachedAt = IsoString now'\<rparr>)\<rparr>, w2))"

text \<open>\<^verbatim>\<open>delete(key)\<close> and \<^verbatim>\<open>clear()\<close>.\<close>

definition delete :: "'a cache_state \<Rightarrow> string \<Rightarrow> 'a cache_state" where
  "delete c key = c\<lparr>cache := (cache c)(key := None)\<rparr>"

definition clear :: "'a cache_state \<Rightarrow> 'a cache_state" where
  "clear c = c\<lparr>cache := Map.empty\<rparr>"

subsection \<open>Articles and providers (\<^verbatim>\<open>src/services/newsService.js\<close>)\<close>

record source_ref =
  source_name :: jsval
  source_url :: jsval

record article =
  title :: jsval
  description :: jsval
  content :: jsval
  url :: jsval
  image :: jsval
  publishedAt :: jsval
  article_source :: source_ref

text \<open>
  An article as a provider sends it. GNews has the field \<open>image\<close>, NewsAPI the field
  \<open>urlToImage\<close>. The field \<open>source\<close> may be missing, and then reading
  \<^verbatim>\<open>article.source.name\<close> throws a TypeError.
\<close>

record raw_source =
  raw_source_name :: jsval
  raw_source_url :: jsval

record raw_article =
  raw_title :: jsval
  raw_description :: jsval
  raw_content :: jsval
  raw_url :: jsval
  raw_image :: jsval
  raw_urlToImage :: jsval
  raw_publishedAt :: jsval
  raw_source :: "raw_source option"

text \<open>
  What \<^verbatim>\<open>axios.get\<close> does: it throws (network error, timeout, status outside 2xx),
  or it returns a response; \<open>Response None\<close> is a response where
  \<^verbatim>\<open>response.data && response.data.articles\<close> is falsy, \<open>Response (Some as)\<close> one
  whose \<^verbatim>\<open>articles\<close> is the array \<open>as\<close>.
\<close>

datatype http_outcome = RequestFailed | Response "raw_article list option"

datatype error = AxiosError | TypeError

text \<open>
  The configuration (\<^verbatim>\<open>src/config/index.js\<close>, read from the process environment) and
  the behaviour of the two providers, as a function of the query sent.
\<close>

record env =
  gnewsApiKey :: "string option"
  newsApiKey :: "string option"
  gnews_get :: "string \<Rightarrow> http_outcome"
  newsapi_get :: "string \<Rightarrow> http_outcome"

text \<open>\<^verbatim>\<open>!apiKey\<close>: the key is undefined or the empty string.\<close>

definition falsy_key :: "string option \<Rightarrow> bool" where
  "falsy_key k = (case k of None \<Rightarrow> True | Some s \<Rightarrow> s = [])"

text \<open>The query both providers build from the preferences.\<close>

definition build_query :: "string list \<Rightarrow> string" where
  "build_query preferences =
     (if length preferences > 0 then join '' OR '' preferences else ''general'')"

text \<open>The callback of \<^verbatim>\<open>articles.map\<close> in \<^verbatim>\<open>fetchFromGNews\<close>.\<close>

definition map_gnews_article :: "raw_article \<Rightarrow> error + article" where
  "map_gnews_article a =
     (case raw_source a of
        None \<Rightarrow> Inl TypeError
      | Some s \<Rightarrow> Inr \<lparr>title = raw_title a, description = raw_description a,
                      content = raw_content a, url = raw_url a, image = raw_image a,
                      publishedAt = raw_publishedAt a,
                      article_source = \<lparr>source_name = raw_source_name s,
                                        source_url = raw_source_url s\<rparr>\<rparr>)"

text \<open>The callback of \<^verbatim>\<open>articles.map\<close> in \<^verbatim>\<open>fetchFromNewsAPI\<close>.\<close>

definition map_newsapi_article :: "raw_article \<Rightarrow> error + article" where
  "map_newsapi_article a =
     (case raw_source a of
        None \<Rightarrow> Inl TypeError
      | Some s \<Rightarrow> Inr \<lparr>title = raw_title a, description = raw_description a,
                      content = raw_content a, url = raw_url a, image = raw_urlToImage a,
                      publishedAt = raw_publishedAt a,
                      article_source = \<lparr>source_name = raw_source_name s,
                                        source_url = Null\<rparr>\<rparr>)"

text \<open>\<^verbatim>\<open>Array.prototype.map\<close> with a callback that may throw: the first throw ends it.\<close>

fun map_throwing :: "('a \<Rightarrow> error + 'b) \<Rightarrow> 'a list \<Rightarrow> error + 'b list" where
  "map_throwing f [] = Inr []"
| "map_throwing f (x # xs) =
     (case f x of
        Inl e \<Rightarrow> Inl e
      | Inr y \<Rightarrow> (case map_throwing f xs of Inl e \<Rightarrow> Inl e | Inr ys \<Rightarrow> Inr (y # ys)))"

text \<open>
  \<^verbatim>\<open>fetchFromGNews(preferences)\<close>: \<open>Inr None\<close> is the return value \<^verbatim>\<open>null\<close>
  (no key configured, no request made), \<open>Inr (Some as)\<close> an array, \<open>Inl e\<close> a
  rejection. A request that is made is recorded in the world.
\<close>

definition fetchFromGNews :: "env \<Rightarrow> world \<Rightarrow> string list \<Rightarrow> (error + article list option) \<times> world" where
  "fetchFromGNews e w preferences =
     (if falsy_key (gnewsApiKey e) then (Inr None, w)
      else
        (let query = build_query preferences;
             w' = w\<lparr>requests := requests w @ [(''gnews'', query)]\<rparr>
         in case gnews_get e query of
              RequestFailed \<Rightarrow> (Inl AxiosError, w')
            | Response None \<Rightarrow> (Inr (Some []), w')
            | Response (Some as) \<Rightarrow>
                (case map_throwing map_gnews_article as of
                   Inl err \<Rightarrow> (Inl err, w')
                 | Inr arts \<Rightarrow> (Inr (Some arts), w'))))"

definition fetchFromNewsAPI :: "env \<Rightarrow> world \<Rightarrow> string list \<Rightarrow> (error + article list option) \<times> world" where
  "fetchFromNewsAPI e w preferences =
     (if falsy_key (newsApiKey e) then (Inr None, w)
      else
        (let query = build_query preferences;
             w' = w\<lparr>requests := requests w @ [(''newsapi'', query)]\<rparr>
         in case newsapi_get e query of
              RequestFailed \<Rightarrow> (Inl AxiosError, w')
            | Response None \<Rightarrow> (Inr (Some []), w')
            | Response (Some as) \<Rightarrow>
                (case map_throwing map_newsapi_article as of
                   Inl err \<Rightarrow> (Inl err, w')
                 | Inr arts \<Rightarrow> (Inr (Some arts), w'))))"

subsection \<open>Synthetic articles\<close>

text \<open>
  \<^verbatim>\<open>toUpperCase\<close> on one code unit, for the ASCII range: the letters \<open>a\<close> to \<open>z\<close> are
  mapped to \<open>A\<close> to \<open>Z\<close>, every other ASCII code unit is kept. Topic strings are taken
  to be ASCII; beyond ASCII the code unit is kept as well.
\<close>

definition toUpperCase_char :: "char \<Rightarrow> char" where
  "toUpperCase_char ch =
     (case map_of (zip ''abcdefghijklmnopqrstuvwxyz'' ''ABCDEFGHIJKLMNOPQRSTUVWXYZ'') ch of
        None \<Rightarrow> ch
      | Some u \<Rightarrow> u)"

text \<open>\<^verbatim>\<open>topic.charAt(0).toUpperCase() + topic.slice(1)\<close>\<close>

definition capitalize :: "string \<Rightarrow> string" where
  "capitalize topic = (case topic of [] \<Rightarrow> [] | ch # rest \<Rightarrow> toUpperCase_char ch # rest)"

text \<open>
  The body of \<^verbatim>\<open>topics.slice(1).forEach\<close>: one article for each further topic. Each
  round reads the clock and then draws a random number.
\<close>

fun mock_extra :: "world \<Rightarrow> string list \<Rightarrow> article list \<times> world" where
  "mock_extra w [] = ([], w)"
| "mock_extra w (topic # ts) =
     (let (now, w1) = Date_now w;
          (r, w2) = Math_random w1;
          a = \<lparr>title = Str (capitalize topic @ '' news update''),
               description = Str (''The latest news and updates about '' @ topic @ ''.''),
               content = Str (''Detailed coverage of '' @ topic @ '' news and developments...''),
               url = Str (''https://example.com/news/'' @ topic @ ''/latest''),
               image = Str (''https://picsum.photos/seed/'' @ topic @ ''/800/400''),
               publishedAt = IsoString (time_clip (real_of_int now - r * 259200000)),
               article_source = \<lparr>source_name = Str ''Topic News'',
                                 source_url = Str ''https://example.com''\<rparr>\<rparr>;
          (rest, w3) = mock_extra w2 ts
      in (a # rest, w3))"

text \<open>
  \<^verbatim>\<open>generateMockNews(preferences)\<close>. \<open>topics[0]\<close> exists, since \<open>topics\<close> is not
  empty; the template literal would print \<^verbatim>\<open>undefined\<close> otherwise.
\<close>

definition generateMockNews :: "world \<Rightarrow> string list \<Rightarrow> article list \<times> world" where
  "generateMockNews w preferences =
     (let topics = (if length preferences > 0 then preferences else [''general'']);
          t0 = (case topics of [] \<Rightarrow> ''undefined'' | t # _ \<Rightarrow> t);
          (now1, w1) = Date_now w;
          (now2, w2) = Date_now w1;
          (now3, w3) = Date_now w2;
          mockArticles =
            [\<lparr>title = Str (''Latest updates in '' @ t0 @ '' industry''),
              description = Str (''Breaking news and developments in the '' @ t0 @
                                 '' sector that you need to know about today.''),
              content = Str (''This is a comprehensive article about the latest trends and updates in ''
                             @ t0 @ ''. Stay informed with our in-depth coverage...''),
              url = Str (''https://example.com/news/'' @ t0 @ ''/article-1''),
              image = Str (''https://picsum.photos/seed/'' @ t0 @ ''/800/400''),
              publishedAt = IsoString now1,
              article_source = \<lparr>source_name = Str ''Mock News Source'',
                                source_url = Str ''https://example.com''\<rparr>\<rparr>,
             \<lparr>title = Str (''Top '' @ t0 @ '' stories of the week''),
              description = Str (''A roundup of the most important '' @ t0 @
                                 '' news from this week.''),
              content = Str (''Here are the top stories you might have missed in '' @ t0 @
                             '' this week...''),
              url = Str (''https://example.com/news/'' @ t0 @ ''/article-2''),
              image = Str (''https://picsum.photos/seed/'' @ t0 @ ''2/800/400''),
              publishedAt = IsoString (now2 - 86400000),
              article_source = \<lparr>source_name = Str ''Weekly Digest'',
                                source_url = Str ''https://example.com''\<rparr>\<rparr>,
             \<lparr>title = Str (''Expert analysis on '' @ t0 @ '' trends''),
              description = Str (''Industry experts share their insights on where '' @ t0 @
                                 '' is heading.''),
              content = Str (''Our panel of experts discusses the future of '' @ t0 @
                             '' and what to expect in the coming months...''),
              url = Str (''https://example.com/news/'' @ t0 @ ''/article-3''),
              image = Str (''https://picsum.photos/seed/'' @ t0 @ ''3/800/400''),
              publishedAt = IsoString (now3 - 172800000),
              article_source = \<lparr>source_name = Str ''Expert Insights'',
                                source_url = Str ''https://example.com''\<rparr>\<rparr>]
      in if length topics > 1
         then (let (extra, w4) = mock_extra w3 (drop 1 topics) in (mockArticles @ extra, w4))
         else (mockArticles, w3))"

subsection \<open>The pipeline\<close>

record result =
  news :: "article list"
  cached :: bool
  source :: string

text \<open>\<^verbatim>\<open>!news || news.length === 0\<close>\<close>

definition no_news :: "article list option \<Rightarrow> bool" where
  "no_news n = (case n of None \<Rightarrow> True | Some as \<Rightarrow> length as = 0)"

text \<open>
  \<^verbatim>\<open>getNews(preferences)\<close>. \<open>generateKey\<close> sorts the array it is given, so every
  later use of \<open>preferences\<close> sees the sorted array, and so does the caller: the
  second component of the result is the caller's array after the call. A cached value
  is an array, which is truthy also when it is empty. Both fetches are inside
  \<^verbatim>\<open>try\<close>/\<^verbatim>\<open>catch\<close> and nothing else in the body throws on an array of strings,
  so the function returns a result in every case.
\<close>

definition getNews :: "env \<Rightarrow> article list cache_state \<Rightarrow> world \<Rightarrow> string list
    \<Rightarrow> result \<times> string list \<times> article list cache_state \<times> world" where
  "getNews e c w preferences0 =
     (let (cacheKey, arg) = generateKey (Some preferences0);
          preferences = (case arg of None \<Rightarrow> preferences0 | Some ps \<Rightarrow> ps);
          (cachedNews, c1, w1) = get c cacheKey w
      in case cachedNews of
           Some d \<Rightarrow> (\<lparr>news = d, cached = True, source = ''cache''\<rparr>, preferences, c1, w1)
         | None \<Rightarrow>
            (let (r1, w2) = fetchFromGNews e w1 preferences;
                 (news1, source1) =
                   (case r1 of
                      Inl err \<Rightarrow> (None, ''mock'')
                    | Inr n \<Rightarrow> (n, if \<not> no_news n then ''gnews'' else ''mock''));
                 (news2, source2, w3) =
                   (if no_news news1
                    then (case fetchFromNewsAPI e w2 preferences of
                            (Inl err, w') \<Rightarrow> (news1, source1, w')
                          | (Inr n, w') \<Rightarrow> (n, if \<not> no_news n then ''newsapi'' else source1, w'))
                    else (news1, source1, w2));
                 (news3, source3, w4) =
                   (case news2 of
                      None \<Rightarrow> (let (m, w') = generateMockNews w3 preferences in (m, ''mock'', w'))
                    | Some as \<Rightarrow>
                        if length as = 0
                        then (let (m, w') = generateMockNews w3 preferences in (m, ''mock'', w'))
                        else (as, source2, w3));
                 (c2, w5) = set_cache c1 cacheKey news3 None w4
             in (\<lparr>news = news3, cached = False, source = source3\<rparr>, preferences, c2, w5)))"

text \<open>
  \<^verbatim>\<open>searchNews(query, preferences)\<close>: the search terms are a fresh array, so the
  caller's array is not touched. \<open>None\<close> is \<^verbatim>\<open>null\<close> or a missing argument.
\<close>

definition searchNews :: "env \<Rightarrow> article list cache_state \<Rightarrow> world \<Rightarrow> string \<Rightarrow> string list option
    \<Rightarrow> result \<times> article list cache_state \<times> world" where
  "searchNews e c w query preferences =
     (let searchTerms = (case preferences of None \<Rightarrow> [] | Some ps \<Rightarrow> ps) @ [query];
          (r, terms, c', w') = getNews e c w searchTerms
      in (r, c', w'))"

subsection \<open>Auxiliary definitions for the statements\<close>

text \<open>A sequence of \<^verbatim>\<open>get\<close> calls on the keys \<open>ks\<close>, with the list of their results.\<close>

fun get_seq :: "'a cache_state \<Rightarrow> string list \<Rightarrow> world \<Rightarrow> 'a option list \<times> 'a cache_state \<times> world" where
  "get_seq c [] w = ([], c, w)"
| "get_seq c (k # ks) w =
     (let (r, c1, w1) = get c k w;
          (rs, c2, w2) = get_seq c1 ks w1
      in (r # rs, c2, w2))"

text \<open>A world whose clock starts at \<open>t\<close> and advances by one millisecond at each reading.\<close>

definition tick_world :: "int \<Rightarrow> world" where
  "tick_world t = \<lparr>clock = siterate (\<lambda>x. x + 1) t, random = sconst (1 / 2), requests = []\<rparr>"

text \<open>A cache whose only entry expired at time 100.\<close>

definition stale_cache :: "nat cache_state" where
  "stale_cache = \<lparr>cache = [''news:tech'' \<mapsto> \<lparr>data = 7, expiresAt = 100, cachedAt = IsoString 0\<rparr>],
                   ttl = config_cache_ttl\<rparr>"

text \<open>
  The three outcomes of a provider that make the pipeline go on to the next source: the
  fetch failed (it threw), the provider declined (\<^verbatim>\<open>null\<close>, no key configured), or
  it returned an empty array.
\<close>

definition unusable :: "error + article list option \<Rightarrow> bool" where
  "unusable r = (case r of Inl err \<Rightarrow> True | Inr None \<Rightarrow> True | Inr (Some as) \<Rightarrow> as = [])"

text \<open>An article with its \<open>publishedAt\<close> field blanked, to compare all other fields.\<close>

definition without_publishedAt :: "article \<Rightarrow> article" where
  "without_publishedAt a = a\<lparr>publishedAt := Null\<rparr>"

text \<open>The field is a string that contains \<open>s\<close> as a substring.\<close>

definition mentions :: "string \<Rightarrow> jsval \<Rightarrow> bool" where
  "mentions s v = (case v of Str t \<Rightarrow> sublist s t | _ \<Rightarrow> False)"

text \<open>
  Sample data: an article as a provider sends it and the article both mappings make of
  it; a configuration with both providers answering, and one with no provider
  configured.
\<close>

definition sample_raw :: "string \<Rightarrow> raw_article" where
  "sample_raw t =
     \<lparr>raw_title = Str t, raw_description = Null, raw_content = Null,
      raw_url = Str ''https://example.org/story'', raw_image = Null, raw_urlToImage = Null,
      raw_publishedAt = Str ''2024-01-01T00:00:00Z'',
      raw_source = Some \<lparr>raw_source_name = Str ''Wire'', raw_source_url = Null\<rparr>\<rparr>"

definition sample_article :: "string \<Rightarrow> article" where
  "sample_article t =
     \<lparr>title = Str t, description = Null, content = Null,
      url = Str ''https://example.org/story'', image = Null,
      publishedAt = Str ''2024-01-01T00:00:00Z'',
      article_source = \<lparr>source_name = Str ''Wire'', source_url = Null\<rparr>\<rparr>"

definition both_providers :: env where
  "both_providers =
     \<lparr>gnewsApiKey = Some ''gnews-key'', newsApiKey = Some ''newsapi-key'',
      gnews_get = (\<lambda>q. Response (Some [sample_raw ''From GNews''])),
      newsapi_get = (\<lambda>q. Response (Some [sample_raw ''From NewsAPI'']))\<rparr>"

definition no_providers :: env where
  "no_providers =
     \<lparr>gnewsApiKey = None, newsApiKey = None,
      gnews_get = (\<lambda>q. RequestFailed), newsapi_get = (\<lambda>q. RequestFailed)\<rparr>"

section \<open>Properties of the cache\<close>

subsection \<open>Key derivation\<close>

lemma generateKey_Some:
  "generateKey (Some ps) =
     (if ps = [] then ''news:general'' else ''news:'' @ join '','' (sort ps), Some (sort ps))"
  by (simp add: generateKey_def)

lemma generateKey_perm:
  assumes "mset ps = mset qs"
  shows "generateKey (Some ps) = generateKey (Some qs)"
proof -
  have "sort ps = sort qs"
    using assms by (intro properties_for_sort) simp_all
  moreover have "ps = [] \<longleftrightarrow> qs = []"
    using assms by (metis mset_zero_iff)
  ultimately show ?thesis
    by (simp add: generateKey_Some)
qed

text \<open>
  C3: key derivation is order-independent, with a fixed sentinel for the empty case. Two
  preference lists with the same multiset of strings get the same key, and the absent
  and the empty list both get the key \<open>news:general\<close>.
\<close>

theorem generateKey_order_independent:
  "(mset ps = mset qs \<longrightarrow> fst (generateKey (Some ps)) = fst (generateKey (Some qs)))
   \<and> fst (generateKey None) = ''news:general''
   \<and> fst (generateKey (Some [])) = ''news:general''"
  using generateKey_perm [of ps qs] by (simp add: generateKey_def)

theorem generateKey_order_independent_witness:
  "mset [''b'', ''a''] = mset [''a'', ''b'']
   \<and> fst (generateKey (Some [''b'', ''a''])) = fst (generateKey (Some [''a'', ''b'']))
   \<and> fst (generateKey (Some [''b'', ''a''])) = ''news:a,b''"
proof -
  have m: "mset [''b'', ''a''] = mset [''a'', ''b'']" by simp
  have k: "fst (generateKey (Some [''a'', ''b''])) = ''news:a,b''"
    by (simp add: generateKey_def)
  from generateKey_order_independent [of "[''b'', ''a'']" "[''a'', ''b'']"] m k
  show ?thesis by simp
qed

text \<open>
  C7: \<open>generateKey\<close> should leave its argument list unchanged (same elements in the
  same order) and not modify the cache. It does not touch the cache, but
  \<^verbatim>\<open>preferences.sort()\<close> sorts the caller's array in place: after the call on
  \<open>["b", "a"]\<close> the array is \<open>["a", "b"]\<close>.
\<close>

theorem generateKey_sorts_argument_in_place:
  "generateKey (Some [''b'', ''a'']) = (''news:a,b'', Some [''a'', ''b''])
   \<and> snd (generateKey (Some [''b'', ''a''])) \<noteq> Some [''b'', ''a'']"
  by (simp add: generateKey_def)

subsection \<open>Reading and eviction\<close>

lemma get_absent: "cache c key = None \<Longrightarrow> get c key w = (None, c, w)"
  by (simp add: get_def)

lemma get_expired:
  "cache c key = Some item \<Longrightarrow> shd (clock w) > expiresAt item \<Longrightarrow>
   get c key w = (None, c\<lparr>cache := (cache c)(key := None)\<rparr>, w\<lparr>clock := stl (clock w)\<rparr>)"
  by (simp add: get_def Date_now_def)

lemma get_live:
  "cache c key = Some item \<Longrightarrow> shd (clock w) \<le> expiresAt item \<Longrightarrow>
   get c key w = (Some (data item), c, w\<lparr>clock := stl (clock w)\<rparr>)"
  by (simp add: get_def Date_now_def)

lemma get_keeps_absent:
  "cache c key = None \<Longrightarrow> cache (fst (snd (get c k w))) key = None"
  by (simp add: get_def Date_now_def split: option.splits)

lemma get_absent_result:
  "cache c key = None \<Longrightarrow> fst (get c key w) = None"
  by (simp add: get_def)

lemma get_seq_absent:
  "cache c key = None \<Longrightarrow> i < length ks \<Longrightarrow> ks ! i = key \<Longrightarrow>
   fst (get_seq c ks w) ! i = None"
proof (induction ks arbitrary: c w i)
  case Nil
  then show ?case by simp
next
  case (Cons k ks)
  obtain r c1 w1 where g: "get c k w = (r, c1, w1)"
    by (cases "get c k w") auto
  obtain rs c2 w2 where s: "get_seq c1 ks w1 = (rs, c2, w2)"
    by (cases "get_seq c1 ks w1") auto
  have c1: "cache c1 key = None"
    using get_keeps_absent [OF Cons.prems(1), of k w] g by simp
  show ?case
  proof (cases i)
    case 0
    with Cons.prems g s get_absent_result [OF Cons.prems(1), of w] show ?thesis
      by simp
  next
    case (Suc j)
    with Cons.prems have "j < length ks" "ks ! j = key" by simp_all
    from Cons.IH [OF c1 this, of w1] g s Suc show ?thesis
      by simp
  qed
qed

text \<open>
  C5: an expired entry is never served and is evicted by the read that finds it expired.
  When the clock reading of \<open>get\<close> is beyond \<open>expiresAt\<close>, the call returns
  \<^verbatim>\<open>null\<close> and deletes the entry; a second \<open>get\<close> on the key returns \<^verbatim>\<open>null\<close>
  again and changes nothing; and in any later sequence of \<open>get\<close> calls, at whatever
  clock readings, every call on that key returns \<^verbatim>\<open>null\<close>.
\<close>

theorem get_expired_never_served:
  assumes "cache c key = Some item" and "shd (clock w) > expiresAt item"
  shows "get c key w = (None, c\<lparr>cache := (cache c)(key := None)\<rparr>, w\<lparr>clock := stl (clock w)\<rparr>)
       \<and> cache (fst (snd (get c key w))) key = None
       \<and> get (fst (snd (get c key w))) key w' = (None, fst (snd (get c key w)), w')
       \<and> (\<forall>i < length ks. ks ! i = key \<longrightarrow> fst (get_seq (fst (snd (get c key w))) ks w') ! i = None)"
proof -
  let ?c' = "c\<lparr>cache := (cache c)(key := None)\<rparr>"
  have g: "get c key w = (None, ?c', w\<lparr>clock := stl (clock w)\<rparr>)"
    using assms by (rule get_expired)
  have a: "cache ?c' key = None" by simp
  have s: "get ?c' key w' = (None, ?c', w')"
    using a by (rule get_absent)
  have q: "\<forall>i < length ks. ks ! i = key \<longrightarrow> fst (get_seq ?c' ks w') ! i = None"
  proof (intro allI impI)
    fix i
    assume "i < length ks" and "ks ! i = key"
    with a show "fst (get_seq ?c' ks w') ! i = None"
      by (rule get_seq_absent)
  qed
  have f: "fst (snd (get c key w)) = ?c'"
    using g by simp
  show ?thesis
    unfolding f using g a s q by blast
qed

theorem get_expired_never_served_witness:
  "cache stale_cache ''news:tech'' = Some \<lparr>data = 7, expiresAt = 100, cachedAt = IsoString 0\<rparr>
   \<and> shd (clock (tick_world 101)) > 100
   \<and> fst (get stale_cache ''news:tech'' (tick_world 101)) = None
   \<and> cache (fst (snd (get stale_cache ''news:tech'' (tick_world 101)))) ''news:tech'' = None
   \<and> fst (get (fst (snd (get stale_cache ''news:tech'' (tick_world 101)))) ''news:tech'' (tick_world 50)) = None
   \<and> fst (get_seq (fst (snd (get stale_cache ''news:tech'' (tick_world 101))))
            [''news:tech'', ''news:general'', ''news:tech''] (tick_world 50)) ! 2 = None"
proof -
  let ?it = "\<lparr>data = 7::nat, expiresAt = 100, cachedAt = IsoString 0\<rparr>"
  let ?ks = "[''news:tech'', ''news:general'', ''news:tech'']"
  have h1: "cache stale_cache ''news:tech'' = Some ?it"
    by (simp add: stale_cache_def)
  have h2: "shd (clock (tick_world 101)) > expiresAt ?it"
    by (simp add: tick_world_def)
  note t = get_expired_never_served [OF h1 h2, of "tick_world 50" ?ks]
  have a: "fst (get stale_cache ''news:tech'' (tick_world 101)) = None"
    using t [THEN conjunct1] by simp
  have b: "cache (fst (snd (get stale_cache ''news:tech'' (tick_world 101)))) ''news:tech'' = None"
    using t [THEN conjunct2, THEN conjunct1] .
  have c: "fst (get (fst (snd (get stale_cache ''news:tech'' (tick_world 101)))) ''news:tech'' (tick_world 50)) = None"
    using t [THEN conjunct2, THEN conjunct2, THEN conjunct1] by simp
  have "2 < length ?ks" and "?ks ! 2 = ''news:tech''" by simp_all
  with t [THEN conjunct2, THEN conjunct2, THEN conjunct2]
  have d: "fst (get_seq (fst (snd (get stale_cache ''news:tech'' (tick_world 101)))) ?ks (tick_world 50)) ! 2 = None"
    by blast
  from h1 h2 a b c d show ?thesis by simp
qed

subsection \<open>Writing\<close>

lemma set_cache_entry:
  "set_cache c key d customTtl w =
     (c\<lparr>cache := (cache c)(key \<mapsto>
         \<lparr>data = d,
          expiresAt = shd (clock w) + (case customTtl of None \<Rightarrow> ttl c | Some t \<Rightarrow> if t \<noteq> 0 then t else ttl c),
          cachedAt = IsoString (shd (stl (clock w)))\<rparr>)\<rparr>,
      w\<lparr>clock := stl (stl (clock w))\<rparr>)"
  by (simp add: set_cache_def Date_now_def)

text \<open>
  C10: a custom TTL of zero is ignored. \<open>set(key, data, 0)\<close> does what
  \<open>set(key, data)\<close> does: the entry expires at the clock reading plus the default TTL
  of the cache, and a read up to that time returns the data. A custom TTL other than
  zero replaces the default.
\<close>

theorem set_cache_zero_ttl_ignored:
  "set_cache c key d (Some 0) w = set_cache c key d None w
   \<and> cache (fst (set_cache c key d (Some 0) w)) key =
       Some \<lparr>data = d, expiresAt = shd (clock w) + ttl c, cachedAt = IsoString (shd (stl (clock w)))\<rparr>
   \<and> (t \<noteq> 0 \<longrightarrow> cache (fst (set_cache c key d (Some t) w)) key =
       Some \<lparr>data = d, expiresAt = shd (clock w) + t, cachedAt = IsoString (shd (stl (clock w)))\<rparr>)
   \<and> (shd (clock w2) \<le> shd (clock w) + ttl c \<longrightarrow>
       fst (get (fst (set_cache c key d (Some 0) w)) key w2) = Some d)"
  by (simp add: set_cache_entry get_def Date_now_def)

theorem set_cache_zero_ttl_ignored_witness:
  "(1000::int) \<noteq> 0
   \<and> cache (fst (set_cache new_Cache ''news:tech'' (7::nat) (Some 0) (tick_world 5000))) ''news:tech'' =
       Some \<lparr>data = 7, expiresAt = 305000, cachedAt = IsoString 5001\<rparr>
   \<and> cache (fst (set_cache new_Cache ''news:tech'' (7::nat) (Some 1000) (tick_world 5000))) ''news:tech'' =
       Some \<lparr>data = 7, expiresAt = 6000, cachedAt = IsoString 5001\<rparr>
   \<and> shd (clock (tick_world 5002)) \<le> shd (clock (tick_world 5000)) + ttl (new_Cache :: nat cache_state)
   \<and> fst (get (fst (set_cache new_Cache ''news:tech'' (7::nat) (Some 0) (tick_world 5000)))
            ''news:tech'' (tick_world 5002)) = Some 7"
proof -
  have h: "shd (clock (tick_world 5002)) \<le> shd (clock (tick_world 5000)) + ttl (new_Cache :: nat cache_state)"
    by (simp add: tick_world_def new_Cache_def config_cache_ttl_def)
  have n: "(1000::int) \<noteq> 0" by simp
  note t = set_cache_zero_ttl_ignored
         [of "new_Cache :: nat cache_state" "''news:tech''" 7 "tick_world 5000" 1000 "tick_world 5002"]
  have a: "cache (fst (set_cache new_Cache ''news:tech'' (7::nat) (Some 0) (tick_world 5000))) ''news:tech'' =
       Some \<lparr>data = 7, expiresAt = 305000, cachedAt = IsoString 5001\<rparr>"
    using t [THEN conjunct2, THEN conjunct1]
    by (simp add: tick_world_def new_Cache_def config_cache_ttl_def)
  have b: "cache (fst (set_cache new_Cache ''news:tech'' (7::nat) (Some 1000) (tick_world 5000))) ''news:tech'' =
       Some \<lparr>data = 7, expiresAt = 6000, cachedAt = IsoString 5001\<rparr>"
    using t [THEN conjunct2, THEN conjunct2, THEN conjunct1] n
    by (simp add: tick_world_def new_Cache_def config_cache_ttl_def)
  have c: "fst (get (fst (set_cache new_Cache ''news:tech'' (7::nat) (Some 0) (tick_world 5000)))
            ''news:tech'' (tick_world 5002)) = Some 7"
    using t [THEN conjunct2, THEN conjunct2, THEN conjunct2] h by blast
  from n a b h c show ?thesis by blast
qed

section \<open>Properties of the retrieval pipeline\<close>

subsection \<open>The providers\<close>

lemma fetchFromGNews_result:
  "fst (fetchFromGNews e w ps) = fst (fetchFromGNews e w' ps)"
  by (simp add: fetchFromGNews_def Let_def split: http_outcome.splits option.splits sum.splits)

lemma fetchFromNewsAPI_result:
  "fst (fetchFromNewsAPI e w ps) = fst (fetchFromNewsAPI e w' ps)"
  by (simp add: fetchFromNewsAPI_def Let_def split: http_outcome.splits option.splits sum.splits)

lemma fetchFromGNews_declines:
  "falsy_key (gnewsApiKey e) \<Longrightarrow> fetchFromGNews e w ps = (Inr None, w)"
  by (simp add: fetchFromGNews_def)

lemma fetchFromNewsAPI_declines:
  "falsy_key (newsApiKey e) \<Longrightarrow> fetchFromNewsAPI e w ps = (Inr None, w)"
  by (simp add: fetchFromNewsAPI_def)

lemma unusable_no_news:
  "unusable r \<longleftrightarrow> (case r of Inl err \<Rightarrow> True | Inr n \<Rightarrow> no_news n)"
  by (simp add: unusable_def no_news_def split: sum.splits option.splits)

lemma get_requests: "requests (snd (snd (get c key w))) = requests w"
  by (simp add: get_def Date_now_def split: option.splits)

lemma set_cache_requests: "requests (snd (set_cache c key d t w)) = requests w"
  by (simp add: set_cache_entry)

lemma fetchFromGNews_requests:
  "\<not> falsy_key (gnewsApiKey e) \<Longrightarrow>
   requests (snd (fetchFromGNews e w ps)) = requests w @ [(''gnews'', build_query ps)]"
  by (simp add: fetchFromGNews_def Let_def split: http_outcome.splits option.splits sum.splits)

lemma fetchFromGNews_other_provider:
  "fetchFromGNews (e\<lparr>newsApiKey := k, newsapi_get := f\<rparr>) w ps = fetchFromGNews e w ps"
  by (simp add: fetchFromGNews_def)

lemma sample_gnews: "map_gnews_article (sample_raw t) = Inr (sample_article t)"
  by (simp add: map_gnews_article_def sample_raw_def sample_article_def)

lemma sample_newsapi: "map_newsapi_article (sample_raw t) = Inr (sample_article t)"
  by (simp add: map_newsapi_article_def sample_raw_def sample_article_def)

lemma fresh_miss: "fst (get new_Cache key w) = None"
  by (simp add: get_def new_Cache_def)

lemma get_ttl: "ttl (fst (snd (get c key w))) = ttl c"
  by (simp add: get_def Date_now_def split: option.splits)

subsection \<open>The branches of \<open>getNews\<close>\<close>

lemma miss_obtain:
  assumes "fst (get c key w) = None"
  obtains c1 w1 where "get c key w = (None, c1, w1)"
  using assms by (cases "get c key w") auto

lemma getNews_hit:
  assumes "cache c (fst (generateKey (Some ps))) = Some item"
    and "shd (clock w) \<le> expiresAt item"
  shows "getNews e c w ps =
           (\<lparr>news = data item, cached = True, source = ''cache''\<rparr>, sort ps, c,
            w\<lparr>clock := stl (clock w)\<rparr>)"
proof -
  have "get c (fst (generateKey (Some ps))) w = (Some (data item), c, w\<lparr>clock := stl (clock w)\<rparr>)"
    using assms by (rule get_live)
  then show ?thesis
    by (simp add: getNews_def generateKey_Some)
qed

lemma getNews_gnews:
  assumes g: "get c (fst (generateKey (Some ps))) w = (None, c1, w1)"
    and f: "fetchFromGNews e w1 (sort ps) = (Inr (Some as), w2)"
    and n: "as \<noteq> []"
  shows "getNews e c w ps =
           (\<lparr>news = as, cached = False, source = ''gnews''\<rparr>, sort ps,
            set_cache c1 (fst (generateKey (Some ps))) as None w2)"
  using g f n
  by (cases "set_cache c1 (fst (generateKey (Some ps))) as None w2")
     (simp add: getNews_def generateKey_Some no_news_def split: list.splits)

lemma getNews_newsapi:
  assumes g: "get c (fst (generateKey (Some ps))) w = (None, c1, w1)"
    and f: "fetchFromGNews e w1 (sort ps) = (r1, w2)"
    and u: "unusable r1"
    and f2: "fetchFromNewsAPI e w2 (sort ps) = (Inr (Some bs), w3)"
    and n: "bs \<noteq> []"
  shows "getNews e c w ps =
           (\<lparr>news = bs, cached = False, source = ''newsapi''\<rparr>, sort ps,
            set_cache c1 (fst (generateKey (Some ps))) bs None w3)"
  using g f u f2 n
  by (cases "set_cache c1 (fst (generateKey (Some ps))) bs None w3")
     (auto simp add: getNews_def generateKey_Some no_news_def unusable_def
           split: list.splits sum.splits option.splits)

lemma getNews_mock:
  assumes g: "get c (fst (generateKey (Some ps))) w = (None, c1, w1)"
    and f: "fetchFromGNews e w1 (sort ps) = (r1, w2)"
    and u: "unusable r1"
    and f2: "fetchFromNewsAPI e w2 (sort ps) = (r2, w3)"
    and u2: "unusable r2"
    and m: "generateMockNews w3 (sort ps) = (arts, w4)"
  shows "getNews e c w ps =
           (\<lparr>news = arts, cached = False, source = ''mock''\<rparr>, sort ps,
            set_cache c1 (fst (generateKey (Some ps))) arts None w4)"
  using g f u f2 u2 m
  by (cases "set_cache c1 (fst (generateKey (Some ps))) arts None w4")
     (auto simp add: getNews_def generateKey_Some no_news_def unusable_def
           split: list.splits sum.splits option.splits)

lemma getNews_perm:
  assumes "mset ps = mset qs"
  shows "getNews e c w ps = getNews e c w qs"
proof -
  have s: "sort ps = sort qs"
    using assms by (intro properties_for_sort) simp_all
  have k: "generateKey (Some ps) = generateKey (Some qs)"
    using assms by (rule generateKey_perm)
  have e: "(ps = []) = (qs = [])"
    using assms by (metis mset_zero_iff)
  show ?thesis
  proof (cases "ps = []")
    case True
    with e show ?thesis by simp
  next
    case False
    with e have "qs \<noteq> []" by simp
    with False show ?thesis
      by (simp add: getNews_def generateKey_Some s)
  qed
qed

lemma getNews_miss_shape:
  assumes g: "get c (fst (generateKey (Some ps))) w = (None, c1, w1)"
  obtains arts src w4 where
    "getNews e c w ps =
       (\<lparr>news = arts, cached = False, source = src\<rparr>, sort ps,
        set_cache c1 (fst (generateKey (Some ps))) arts None w4)"
proof -
  obtain r1 w2 where f1: "fetchFromGNews e w1 (sort ps) = (r1, w2)"
    by (cases "fetchFromGNews e w1 (sort ps)") auto
  obtain r2 w3 where f2: "fetchFromNewsAPI e w2 (sort ps) = (r2, w3)"
    by (cases "fetchFromNewsAPI e w2 (sort ps)") auto
  obtain m w4 where m: "generateMockNews w3 (sort ps) = (m, w4)"
    by (cases "generateMockNews w3 (sort ps)") auto
  show ?thesis
  proof (cases "unusable r1")
    case False
    then obtain as where "r1 = Inr (Some as)" and "as \<noteq> []"
      by (auto simp add: unusable_def split: sum.splits option.splits)
    with getNews_gnews [OF g _ this(2), of e w2] f1 that show ?thesis
      by blast
  next
    case u1: True
    show ?thesis
    proof (cases "unusable r2")
      case False
      then obtain bs where "r2 = Inr (Some bs)" and "bs \<noteq> []"
        by (auto simp add: unusable_def split: sum.splits option.splits)
      with getNews_newsapi [OF g f1 u1 _ this(2), of w3] f2 that show ?thesis
        by blast
    next
      case True
      from getNews_mock [OF g f1 u1 f2 True m] that show ?thesis
        by blast
    qed
  qed
qed

lemma getNews_miss_stores:
  assumes miss: "fst (get c (fst (generateKey (Some ps))) w) = None"
    and first: "getNews e c w ps = (r1, ps1, c1, w1)"
  obtains w4 where "cached r1 = False" and "ps1 = sort ps"
    and "cache c1 (fst (generateKey (Some ps))) =
           Some \<lparr>data = news r1, expiresAt = shd (clock w4) + ttl c,
                 cachedAt = IsoString (shd (stl (clock w4)))\<rparr>"
    and "w1 = w4\<lparr>clock := stl (stl (clock w4))\<rparr>"
proof -
  let ?key = "fst (generateKey (Some ps))"
  obtain c0 w0 where g: "get c ?key w = (None, c0, w0)"
    using miss by (rule miss_obtain)
  have t: "ttl c0 = ttl c"
    using get_ttl [of c ?key w] g by simp
  obtain arts src w4 where
    s: "getNews e c w ps =
          (\<lparr>news = arts, cached = False, source = src\<rparr>, sort ps, set_cache c0 ?key arts None w4)"
    using g by (rule getNews_miss_shape)
  from s first have r: "r1 = \<lparr>news = arts, cached = False, source = src\<rparr>" and p: "ps1 = sort ps"
    and cw: "(c1, w1) = set_cache c0 ?key arts None w4"
    by simp_all
  from cw have c1: "c1 = fst (set_cache c0 ?key arts None w4)"
    and w1: "w1 = snd (set_cache c0 ?key arts None w4)"
    by (metis fst_conv, metis snd_conv)
  have "cache c1 ?key = Some \<lparr>data = news r1, expiresAt = shd (clock w4) + ttl c,
                               cachedAt = IsoString (shd (stl (clock w4)))\<rparr>"
    unfolding c1 r by (simp add: set_cache_entry t)
  moreover have "w1 = w4\<lparr>clock := stl (stl (clock w4))\<rparr>"
    unfolding w1 by (simp add: set_cache_entry)
  moreover have "cached r1 = False"
    unfolding r by simp
  ultimately show ?thesis
    using p that by blast
qed

lemma length_mock_extra: "length (fst (mock_extra w ts)) = length ts"
  by (induction ts arbitrary: w) (simp_all add: split_def Let_def)

lemma length_generateMockNews:
  "length (fst (generateMockNews w ps)) = 3 + (length ps - 1)"
  by (simp add: generateMockNews_def split_def Let_def length_mock_extra)

subsection \<open>Fallback order\<close>

text \<open>
  C1: on a cache miss, the only case in which a provider is tried, the sources are taken
  in the order GNews, NewsAPI, synthesis. If GNews is configured and its fetch yields at
  least one article, \<open>getNews\<close> returns these articles with source \<open>gnews\<close>,
  not cached, whatever the key and the behaviour of NewsAPI are, and the only request
  made is the one to GNews. If GNews declines, fails or yields nothing and NewsAPI
  yields at least one article, the result is NewsAPI's with source \<open>newsapi\<close>. If
  both decline, fail or yield nothing, the result is synthetic (source \<open>mock\<close>).
\<close>

theorem getNews_fallback_order:
  assumes miss: "fst (get c (fst (generateKey (Some ps))) w) = None"
  shows "(\<not> falsy_key (gnewsApiKey e) \<and> fst (fetchFromGNews e wa (sort ps)) = Inr (Some as) \<and> as \<noteq> [] \<longrightarrow>
            news (fst (getNews (e\<lparr>newsApiKey := k, newsapi_get := f\<rparr>) c w ps)) = as
          \<and> source (fst (getNews (e\<lparr>newsApiKey := k, newsapi_get := f\<rparr>) c w ps)) = ''gnews''
          \<and> cached (fst (getNews (e\<lparr>newsApiKey := k, newsapi_get := f\<rparr>) c w ps)) = False
          \<and> requests (snd (snd (snd (getNews (e\<lparr>newsApiKey := k, newsapi_get := f\<rparr>) c w ps)))) =
              requests w @ [(''gnews'', build_query (sort ps))])
       \<and> (unusable (fst (fetchFromGNews e wa (sort ps)))
            \<and> fst (fetchFromNewsAPI e wb (sort ps)) = Inr (Some bs) \<and> bs \<noteq> [] \<longrightarrow>
            news (fst (getNews e c w ps)) = bs \<and> source (fst (getNews e c w ps)) = ''newsapi'')
       \<and> (unusable (fst (fetchFromGNews e wa (sort ps)))
            \<and> unusable (fst (fetchFromNewsAPI e wb (sort ps))) \<longrightarrow>
            source (fst (getNews e c w ps)) = ''mock''
          \<and> news (fst (getNews e c w ps)) \<noteq> [])"
proof -
  let ?key = "fst (generateKey (Some ps))"
  obtain c1 w1 where g: "get c ?key w = (None, c1, w1)"
    using miss by (rule miss_obtain)
  have w1: "requests w1 = requests w"
    using get_requests [of c ?key w] g by simp
  obtain r1 w2 where f1: "fetchFromGNews e w1 (sort ps) = (r1, w2)"
    by (cases "fetchFromGNews e w1 (sort ps)") auto
  have r1: "fst (fetchFromGNews e wa (sort ps)) = r1"
    using fetchFromGNews_result [of e wa "sort ps" w1] f1 by simp
  obtain r2 w3 where f2: "fetchFromNewsAPI e w2 (sort ps) = (r2, w3)"
    by (cases "fetchFromNewsAPI e w2 (sort ps)") auto
  have r2: "fst (fetchFromNewsAPI e wb (sort ps)) = r2"
    using fetchFromNewsAPI_result [of e wb "sort ps" w2] f2 by simp
  have first: ?thesis if a: "\<not> falsy_key (gnewsApiKey e)" "r1 = Inr (Some as)" "as \<noteq> []"
  proof -
    let ?e = "e\<lparr>newsApiKey := k, newsapi_get := f\<rparr>"
    have "fetchFromGNews ?e w1 (sort ps) = (Inr (Some as), w2)"
      using f1 a by (simp add: fetchFromGNews_other_provider)
    from getNews_gnews [OF g this a(3)]
    have n: "getNews ?e c w ps =
               (\<lparr>news = as, cached = False, source = ''gnews''\<rparr>, sort ps, set_cache c1 ?key as None w2)" .
    have "requests w2 = requests w @ [(''gnews'', build_query (sort ps))]"
      using fetchFromGNews_requests [OF a(1), of w1 "sort ps"] f1 w1 by simp
    then have "requests (snd (set_cache c1 ?key as None w2)) = requests w @ [(''gnews'', build_query (sort ps))]"
      by (simp add: set_cache_requests)
    with n a r1 show ?thesis
      by (simp add: unusable_def)
  qed
  have second: "news (fst (getNews e c w ps)) = bs \<and> source (fst (getNews e c w ps)) = ''newsapi''"
    if a: "unusable r1" "r2 = Inr (Some bs)" "bs \<noteq> []"
    using getNews_newsapi [OF g f1 a(1) f2 [unfolded a(2)] a(3)] by simp
  have third: "source (fst (getNews e c w ps)) = ''mock'' \<and> news (fst (getNews e c w ps)) \<noteq> []"
    if a: "unusable r1" "unusable r2"
  proof -
    obtain arts w4 where m: "generateMockNews w3 (sort ps) = (arts, w4)"
      by (cases "generateMockNews w3 (sort ps)") auto
    have "arts \<noteq> []"
      using m by (auto simp add: generateMockNews_def Let_def split_def split: if_splits)
    with getNews_mock [OF g f1 a(1) f2 a(2) m] show ?thesis by simp
  qed
  show ?thesis
  proof (cases "r1 = Inr (Some as) \<and> as \<noteq> [] \<and> \<not> falsy_key (gnewsApiKey e)")
    case True
    then show ?thesis using first by blast
  next
    case False
    then have "\<not> (\<not> falsy_key (gnewsApiKey e) \<and> r1 = Inr (Some as) \<and> as \<noteq> [])" by blast
    with second third r1 r2 show ?thesis by blast
  qed
qed

theorem getNews_fallback_order_witness:
  "fst (get new_Cache (fst (generateKey (Some [''tech'']))) (tick_world 1000)) = None
   \<and> \<not> falsy_key (gnewsApiKey both_providers)
   \<and> fst (fetchFromGNews both_providers (tick_world 0) (sort [''tech''])) = Inr (Some [sample_article ''From GNews''])
   \<and> [sample_article ''From GNews''] \<noteq> []
   \<and> news (fst (getNews (both_providers\<lparr>newsApiKey := None, newsapi_get := (\<lambda>q. RequestFailed)\<rparr>)
                  new_Cache (tick_world 1000) [''tech''])) = [sample_article ''From GNews'']
   \<and> source (fst (getNews (both_providers\<lparr>newsApiKey := None, newsapi_get := (\<lambda>q. RequestFailed)\<rparr>)
                  new_Cache (tick_world 1000) [''tech''])) = ''gnews''
   \<and> unusable (fst (fetchFromGNews (both_providers\<lparr>gnews_get := (\<lambda>q. RequestFailed)\<rparr>) (tick_world 0) (sort [''tech''])))
   \<and> fst (fetchFromNewsAPI (both_providers\<lparr>gnews_get := (\<lambda>q. RequestFailed)\<rparr>) (tick_world 0) (sort [''tech'']))
        = Inr (Some [sample_article ''From NewsAPI''])
   \<and> source (fst (getNews (both_providers\<lparr>gnews_get := (\<lambda>q. RequestFailed)\<rparr>) new_Cache (tick_world 1000) [''tech'']))
        = ''newsapi''
   \<and> unusable (fst (fetchFromGNews no_providers (tick_world 0) (sort [''tech''])))
   \<and> unusable (fst (fetchFromNewsAPI no_providers (tick_world 0) (sort [''tech''])))
   \<and> source (fst (getNews no_providers new_Cache (tick_world 1000) [''tech''])) = ''mock''"
proof -
  let ?w = "tick_world 1000" and ?wa = "tick_world 0"
  let ?e2 = "both_providers\<lparr>gnews_get := (\<lambda>q. RequestFailed)\<rparr>"
  have miss: "fst (get new_Cache (fst (generateKey (Some [''tech'']))) ?w) = None"
    by (rule fresh_miss)
  have k: "\<not> falsy_key (gnewsApiKey both_providers)"
    by (simp add: both_providers_def falsy_key_def)
  have g1: "fst (fetchFromGNews both_providers ?wa (sort [''tech''])) = Inr (Some [sample_article ''From GNews''])"
    by (simp add: fetchFromGNews_def both_providers_def falsy_key_def sample_gnews)
  have ne: "[sample_article ''From GNews''] \<noteq> []" by simp
  have g2: "unusable (fst (fetchFromGNews ?e2 ?wa (sort [''tech''])))"
    by (simp add: fetchFromGNews_def both_providers_def falsy_key_def unusable_def)
  have n2: "fst (fetchFromNewsAPI ?e2 ?wa (sort [''tech''])) = Inr (Some [sample_article ''From NewsAPI''])"
    by (simp add: fetchFromNewsAPI_def both_providers_def falsy_key_def sample_newsapi)
  have ne2: "[sample_article ''From NewsAPI''] \<noteq> []" by simp
  have g3: "unusable (fst (fetchFromGNews no_providers ?wa (sort [''tech''])))"
    by (simp add: fetchFromGNews_def no_providers_def falsy_key_def unusable_def)
  have n3: "unusable (fst (fetchFromNewsAPI no_providers ?wa (sort [''tech''])))"
    by (simp add: fetchFromNewsAPI_def no_providers_def falsy_key_def unusable_def)
  have a: "news (fst (getNews (both_providers\<lparr>newsApiKey := None, newsapi_get := (\<lambda>q. RequestFailed)\<rparr>)
                  new_Cache ?w [''tech''])) = [sample_article ''From GNews'']
        \<and> source (fst (getNews (both_providers\<lparr>newsApiKey := None, newsapi_get := (\<lambda>q. RequestFailed)\<rparr>)
                  new_Cache ?w [''tech''])) = ''gnews''"
    using getNews_fallback_order [OF miss, where e = both_providers and wa = ?wa
            and as = "[sample_article ''From GNews'']" and k = None and f = "\<lambda>q. RequestFailed",
            THEN conjunct1] k g1 ne
    by blast
  have b: "source (fst (getNews ?e2 new_Cache ?w [''tech''])) = ''newsapi''"
    using getNews_fallback_order [OF miss, where e = ?e2 and wa = ?wa and wb = ?wa
            and bs = "[sample_article ''From NewsAPI'']", THEN conjunct2, THEN conjunct1] g2 n2 ne2
    by blast
  have c: "source (fst (getNews no_providers new_Cache ?w [''tech''])) = ''mock''"
    using getNews_fallback_order [OF miss, where e = no_providers and wa = ?wa and wb = ?wa,
            THEN conjunct2, THEN conjunct2] g3 n3
    by blast
  from miss k g1 ne a g2 n2 b g3 n3 c show ?thesis
    by blast
qed

subsection \<open>Exhausted fallback\<close>

text \<open>
  C2: on a cache miss, when each provider is not configured or declines, fails or
  returns an empty collection, \<open>getNews\<close> returns a result with source \<open>mock\<close>
  (synthetic provenance), not cached, whose collection is not empty and has exactly
  \<open>3 + max(0, n - 1)\<close> articles for \<open>n\<close> preferences. \<open>getNews\<close> is a total
  function: it returns a result, never an error.
\<close>

theorem getNews_exhausted_fallback:
  assumes miss: "fst (get c (fst (generateKey (Some ps))) w) = None"
    and gnews: "falsy_key (gnewsApiKey e) \<or> unusable (fst (fetchFromGNews e wa (sort ps)))"
    and newsapi: "falsy_key (newsApiKey e) \<or> unusable (fst (fetchFromNewsAPI e wb (sort ps)))"
  shows "source (fst (getNews e c w ps)) = ''mock''
       \<and> cached (fst (getNews e c w ps)) = False
       \<and> news (fst (getNews e c w ps)) \<noteq> []
       \<and> int (length (news (fst (getNews e c w ps)))) = 3 + max 0 (int (length ps) - 1)"
proof -
  let ?key = "fst (generateKey (Some ps))"
  obtain c1 w1 where g: "get c ?key w = (None, c1, w1)"
    using miss by (rule miss_obtain)
  obtain r1 w2 where f1: "fetchFromGNews e w1 (sort ps) = (r1, w2)"
    by (cases "fetchFromGNews e w1 (sort ps)") auto
  obtain r2 w3 where f2: "fetchFromNewsAPI e w2 (sort ps) = (r2, w3)"
    by (cases "fetchFromNewsAPI e w2 (sort ps)") auto
  obtain arts w4 where m: "generateMockNews w3 (sort ps) = (arts, w4)"
    by (cases "generateMockNews w3 (sort ps)") auto
  have u1: "unusable r1"
  proof (cases "falsy_key (gnewsApiKey e)")
    case True
    then show ?thesis
      using fetchFromGNews_declines [of e w1 "sort ps"] f1 by (simp add: unusable_def)
  next
    case False
    with gnews have "unusable (fst (fetchFromGNews e wa (sort ps)))" by simp
    then show ?thesis
      using fetchFromGNews_result [of e wa "sort ps" w1] f1 by simp
  qed
  have u2: "unusable r2"
  proof (cases "falsy_key (newsApiKey e)")
    case True
    then show ?thesis
      using fetchFromNewsAPI_declines [of e w2 "sort ps"] f2 by (simp add: unusable_def)
  next
    case False
    with newsapi have "unusable (fst (fetchFromNewsAPI e wb (sort ps)))" by simp
    then show ?thesis
      using fetchFromNewsAPI_result [of e wb "sort ps" w2] f2 by simp
  qed
  have len: "length arts = 3 + (length ps - 1)"
    using length_generateMockNews [of w3 "sort ps"] m by simp
  then have ne: "arts \<noteq> []" by auto
  have "int (length arts) = 3 + max 0 (int (length ps) - 1)"
    using len by (cases ps) simp_all
  with getNews_mock [OF g f1 u1 f2 u2 m] ne show ?thesis
    by simp
qed

theorem getNews_exhausted_fallback_witness:
  "fst (get new_Cache (fst (generateKey (Some [''sports'', ''finance'', ''ai'']))) (tick_world 1000)) = None
   \<and> falsy_key (gnewsApiKey no_providers)
   \<and> falsy_key (newsApiKey no_providers)
   \<and> source (fst (getNews no_providers new_Cache (tick_world 1000) [''sports'', ''finance'', ''ai''])) = ''mock''
   \<and> length (news (fst (getNews no_providers new_Cache (tick_world 1000) [''sports'', ''finance'', ''ai'']))) = 5"
proof -
  have miss: "fst (get new_Cache (fst (generateKey (Some [''sports'', ''finance'', ''ai'']))) (tick_world 1000)) = None"
    by (rule fresh_miss)
  have k1: "falsy_key (gnewsApiKey no_providers)" and k2: "falsy_key (newsApiKey no_providers)"
    by (simp_all add: no_providers_def falsy_key_def)
  from getNews_exhausted_fallback [OF miss disjI1 [OF k1] disjI1 [OF k2]] miss k1 k2
  show ?thesis by simp
qed

subsection \<open>Write-through\<close>



subsection \<open>Search\<close>

text \<open>
  C6: \<open>searchNews(q, P)\<close> is \<open>getNews\<close> on the preferences extended with \<open>q\<close>:
  it returns the result, the cache and the world that \<open>getNews\<close> returns on
  \<open>P @ [q]\<close>, and on any permutation of this list. A missing \<open>P\<close> counts as the
  empty list.
\<close>

theorem searchNews_is_getNews:
  "searchNews e c w q None = (case getNews e c w [q] of (r, ps', c', w') \<Rightarrow> (r, c', w'))
   \<and> (mset qs = mset (P @ [q]) \<longrightarrow>
        searchNews e c w q (Some P) = (case getNews e c w qs of (r, ps', c', w') \<Rightarrow> (r, c', w')))"
proof -
  have "searchNews e c w q (Some P) = (case getNews e c w qs of (r, ps', c', w') \<Rightarrow> (r, c', w'))"
    if "mset qs = mset (P @ [q])"
    using getNews_perm [OF that, of e c w] by (simp add: searchNews_def)
  then show ?thesis
    by (simp add: searchNews_def)
qed

theorem searchNews_is_getNews_witness:
  "mset [''tech'', ''ai''] = mset ([''tech''] @ [''ai''])
   \<and> searchNews no_providers new_Cache (tick_world 1000) ''ai'' (Some [''tech'']) =
       (case getNews no_providers new_Cache (tick_world 1000) [''tech'', ''ai''] of
          (r, ps', c', w') \<Rightarrow> (r, c', w'))
   \<and> mset [''ai'', ''tech''] = mset ([''tech''] @ [''ai''])
   \<and> searchNews no_providers new_Cache (tick_world 1000) ''ai'' (Some [''tech'']) =
       (case getNews no_providers new_Cache (tick_world 1000) [''ai'', ''tech''] of
          (r, ps', c', w') \<Rightarrow> (r, c', w'))"
proof -
  have a: "mset [''tech'', ''ai''] = mset ([''tech''] @ [''ai''])" by simp
  have b: "mset [''ai'', ''tech''] = mset ([''tech''] @ [''ai''])" by simp
  from searchNews_is_getNews [of no_providers new_Cache "tick_world 1000" "''ai''" "[''tech'', ''ai'']" "[''tech'']"]
       searchNews_is_getNews [of no_providers new_Cache "tick_world 1000" "''ai''" "[''ai'', ''tech'']" "[''tech'']"]
       a b
  show ?thesis by blast
qed

section \<open>Properties of the synthetic articles\<close>

lemma mock_extra_shape:
  "map without_publishedAt (fst (mock_extra w1 ts)) = map without_publishedAt (fst (mock_extra w2 ts))"
  by (induction ts arbitrary: w1 w2)
     (simp_all add: split_def Let_def without_publishedAt_def)

lemma mock_extra_same_readings:
  "clock w1 = clock w2 \<Longrightarrow> random w1 = random w2 \<Longrightarrow>
   fst (mock_extra w1 ts) = fst (mock_extra w2 ts)"
proof (induction ts arbitrary: w1 w2)
  case Nil
  then show ?case by simp
next
  case (Cons t ts)
  let ?v1 = "snd (Math_random (snd (Date_now w1)))" and ?v2 = "snd (Math_random (snd (Date_now w2)))"
  have "clock ?v1 = clock ?v2" and "random ?v1 = random ?v2"
    using Cons.prems by (simp_all add: Date_now_def Math_random_def)
  then have "fst (mock_extra ?v1 ts) = fst (mock_extra ?v2 ts)"
    by (rule Cons.IH)
  then show ?case
    using Cons.prems by (simp add: split_def Let_def Date_now_def Math_random_def)
qed

text \<open>
  C8, as stated, fails: synthesis reads the clock for every \<open>publishedAt\<close>. Two calls in
  a row, on a clock that advances, give different collections.
\<close>

theorem generateMockNews_not_deterministic:
  "fst (generateMockNews (tick_world 1000) [''tech'']) \<noteq>
   fst (generateMockNews (snd (generateMockNews (tick_world 1000) [''tech''])) [''tech''])"
  by (simp add: generateMockNews_def tick_world_def Date_now_def)

text \<open>
  C8, amended: for a fixed preference list, two calls of \<open>generateMockNews\<close> give
  collections of the same length that agree, article by article, in every field but
  \<open>publishedAt\<close> (title, description, content, url, image, source). The timestamps
  are computed from the clock readings and random draws of the call: the collections
  are equal when these are the same in both calls.
\<close>

theorem generateMockNews_deterministic_shape:
  "length (fst (generateMockNews w1 ps)) = length (fst (generateMockNews w2 ps))
   \<and> map without_publishedAt (fst (generateMockNews w1 ps)) =
       map without_publishedAt (fst (generateMockNews w2 ps))
   \<and> (clock w1 = clock w2 \<and> random w1 = random w2 \<longrightarrow>
        fst (generateMockNews w1 ps) = fst (generateMockNews w2 ps))"
proof (intro conjI impI)
  show "length (fst (generateMockNews w1 ps)) = length (fst (generateMockNews w2 ps))"
    by (simp add: length_generateMockNews)
  show "map without_publishedAt (fst (generateMockNews w1 ps)) =
        map without_publishedAt (fst (generateMockNews w2 ps))"
    using mock_extra_shape [of "snd (Date_now (snd (Date_now (snd (Date_now w1)))))" "drop 1 ps"
                               "snd (Date_now (snd (Date_now (snd (Date_now w2)))))"]
    by (simp add: generateMockNews_def split_def Let_def without_publishedAt_def)
  assume a: "clock w1 = clock w2 \<and> random w1 = random w2"
  let ?v1 = "snd (Date_now (snd (Date_now (snd (Date_now w1)))))"
  let ?v2 = "snd (Date_now (snd (Date_now (snd (Date_now w2)))))"
  have "clock ?v1 = clock ?v2" and "random ?v1 = random ?v2"
    using a by (simp_all add: Date_now_def)
  then have "fst (mock_extra ?v1 (drop 1 ps)) = fst (mock_extra ?v2 (drop 1 ps))"
    by (rule mock_extra_same_readings)
  then show "fst (generateMockNews w1 ps) = fst (generateMockNews w2 ps)"
    using a by (simp add: generateMockNews_def split_def Let_def Date_now_def)
qed

theorem generateMockNews_deterministic_shape_witness:
  "clock (tick_world 1000) = clock ((tick_world 1000)\<lparr>requests := [(''gnews'', ''tech'')]\<rparr>)
   \<and> random (tick_world 1000) = random ((tick_world 1000)\<lparr>requests := [(''gnews'', ''tech'')]\<rparr>)
   \<and> fst (generateMockNews (tick_world 1000) [''tech'', ''ai'']) =
       fst (generateMockNews ((tick_world 1000)\<lparr>requests := [(''gnews'', ''tech'')]\<rparr>) [''tech'', ''ai''])
   \<and> map without_publishedAt (fst (generateMockNews (tick_world 1000) [''tech'', ''ai''])) =
       map without_publishedAt (fst (generateMockNews (tick_world 86400000) [''tech'', ''ai'']))"
proof -
  let ?w2 = "(tick_world 1000)\<lparr>requests := [(''gnews'', ''tech'')]\<rparr>"
  have a: "clock (tick_world 1000) = clock ?w2" and b: "random (tick_world 1000) = random ?w2"
    by simp_all
  from generateMockNews_deterministic_shape [of "tick_world 1000" "[''tech'', ''ai'']" ?w2]
       generateMockNews_deterministic_shape [of "tick_world 1000" "[''tech'', ''ai'']" "tick_world 86400000"]
       a b
  show ?thesis by blast
qed

text \<open>
  C9, as stated, fails: for \<open>["sports", "finance"]\<close>, no provider configured and an
  empty cache, the first title does not mention \<open>sports\<close>. The lead topic of the three
  base articles is \<open>finance\<close>, and \<open>sports\<close> gets the fourth article.
\<close>

theorem lead_topic_of_sports_finance:
  "map title (news (fst (getNews no_providers new_Cache (tick_world 1000) [''sports'', ''finance'']))) =
     [Str ''Latest updates in finance industry'', Str ''Top finance stories of the week'',
      Str ''Expert analysis on finance trends'', Str ''Sports news update'']
   \<and> \<not> mentions ''sports''
         (title (news (fst (getNews no_providers new_Cache (tick_world 1000) [''sports'', ''finance''])) ! 0))"
proof -
  let ?N = "news (fst (getNews no_providers new_Cache (tick_world 1000) [''sports'', ''finance'']))"
  have t: "map title ?N =
     [Str ''Latest updates in finance industry'', Str ''Top finance stories of the week'',
      Str ''Expert analysis on finance trends'', Str ''Sports news update'']"
    by (simp add: getNews_def generateKey_def get_def new_Cache_def no_providers_def
          fetchFromGNews_def fetchFromNewsAPI_def falsy_key_def no_news_def set_cache_def
          generateMockNews_def tick_world_def Date_now_def Math_random_def capitalize_def
          toUpperCase_char_def)
  from arg_cong [OF t, of length] have "0 < length ?N"
    by simp
  then have "title (?N ! 0) = map title ?N ! 0"
    by (rule nth_map [symmetric])
  then have "title (?N ! 0) = Str ''Latest updates in finance industry''"
    by (simp only: t nth_Cons_0)
  moreover have "\<not> mentions ''sports'' (Str ''Latest updates in finance industry'')"
    by (simp add: mentions_def sublist_Cons_right)
  ultimately have "\<not> mentions ''sports'' (title (?N ! 0))"
    by simp
  with t show ?thesis
    by (rule conjI)
qed

text \<open>
  C9, amended: for \<open>["sports", "finance"]\<close> with no provider configured, a call that
  misses the cache returns four articles with source \<open>mock\<close> and \<open>cached = False\<close>:
  three base articles whose titles name one of the two topics as the lead topic, and a
  fourth article titled after the other topic. A repeat call whose clock reading is not
  beyond the expiry of the stored entry returns \<open>cached = True\<close>, source \<open>cache\<close>
  and the same articles.
\<close>

theorem getNews_sports_finance:
  assumes k1: "falsy_key (gnewsApiKey e)" and k2: "falsy_key (newsApiKey e)"
    and miss: "fst (get c (fst (generateKey (Some [''sports'', ''finance'']))) w) = None"
    and first: "getNews e c w [''sports'', ''finance''] = (r1, ps1, c1, w1)"
  shows "length (news r1) = 4 \<and> source r1 = ''mock'' \<and> cached r1 = False
       \<and> (\<exists>t u. (t = ''sports'' \<and> u = ''finance'' \<or> t = ''finance'' \<and> u = ''sports'')
            \<and> map title (news r1) =
                [Str (''Latest updates in '' @ t @ '' industry''),
                 Str (''Top '' @ t @ '' stories of the week''),
                 Str (''Expert analysis on '' @ t @ '' trends''),
                 Str (capitalize u @ '' news update'')])
       \<and> (\<exists>item. cache c1 (fst (generateKey (Some [''sports'', ''finance'']))) = Some item
            \<and> (shd (clock w1) \<le> expiresAt item \<longrightarrow>
                 cached (fst (getNews e c1 w1 [''sports'', ''finance''])) = True
               \<and> source (fst (getNews e c1 w1 [''sports'', ''finance''])) = ''cache''
               \<and> news (fst (getNews e c1 w1 [''sports'', ''finance''])) = news r1))"
proof -
  let ?ps = "[''sports'', ''finance'']"
  let ?key = "fst (generateKey (Some ?ps))"
  have srt: "sort ?ps = [''finance'', ''sports'']"
    by simp
  obtain c0 w0 where g: "get c ?key w = (None, c0, w0)"
    using miss by (rule miss_obtain)
  have f1: "fetchFromGNews e w0 (sort ?ps) = (Inr None, w0)"
    using k1 by (rule fetchFromGNews_declines)
  have f2: "fetchFromNewsAPI e w0 (sort ?ps) = (Inr None, w0)"
    using k2 by (rule fetchFromNewsAPI_declines)
  have u: "unusable (Inr None)"
    by (simp add: unusable_def)
  obtain arts w4 where m: "generateMockNews w0 (sort ?ps) = (arts, w4)"
    by (cases "generateMockNews w0 (sort ?ps)") auto
  have len: "length arts = 4"
    using length_generateMockNews [of w0 "sort ?ps"] m by simp
  have "map title (fst (generateMockNews w0 [''finance'', ''sports''])) =
          [Str (''Latest updates in '' @ ''finance'' @ '' industry''),
           Str (''Top '' @ ''finance'' @ '' stories of the week''),
           Str (''Expert analysis on '' @ ''finance'' @ '' trends''),
           Str (capitalize ''sports'' @ '' news update'')]"
    by (simp add: generateMockNews_def split_def Let_def)
  then have titles: "map title arts =
          [Str (''Latest updates in '' @ ''finance'' @ '' industry''),
           Str (''Top '' @ ''finance'' @ '' stories of the week''),
           Str (''Expert analysis on '' @ ''finance'' @ '' trends''),
           Str (capitalize ''sports'' @ '' news update'')]"
    using m by (simp only: srt fst_conv)
  from getNews_mock [OF g f1 u f2 u m] first
  have r1: "r1 = \<lparr>news = arts, cached = False, source = ''mock''\<rparr>"
    by simp
  obtain v :: world where st: "cache c1 ?key = Some \<lparr>data = news r1, expiresAt = shd (clock v) + ttl c,
                                         cachedAt = IsoString (shd (stl (clock v)))\<rparr>"
    using miss first by (rule getNews_miss_stores)
  let ?stored = "\<lparr>data = news r1, expiresAt = shd (clock v) + ttl c,
                   cachedAt = IsoString (shd (stl (clock v)))\<rparr>"
  have hit: "getNews e c1 w1 ?ps =
               (\<lparr>news = news r1, cached = True, source = ''cache''\<rparr>, sort ?ps, c1,
                w1\<lparr>clock := stl (clock w1)\<rparr>)"
    if "shd (clock w1) \<le> expiresAt ?stored"
    using getNews_hit [OF st that, of e] by simp
  show ?thesis
  proof (intro conjI)
    show "length (news r1) = 4" using len r1 by simp
    show "source r1 = ''mock''" using r1 by simp
    show "cached r1 = False" using r1 by simp
    show "\<exists>t u. (t = ''sports'' \<and> u = ''finance'' \<or> t = ''finance'' \<and> u = ''sports'')
            \<and> map title (news r1) =
                [Str (''Latest updates in '' @ t @ '' industry''),
                 Str (''Top '' @ t @ '' stories of the week''),
                 Str (''Expert analysis on '' @ t @ '' trends''),
                 Str (capitalize u @ '' news update'')]"
      using titles r1 by (intro exI [of _ "''finance''"] exI [of _ "''sports''"]) simp
    show "\<exists>item. cache c1 ?key = Some item
            \<and> (shd (clock w1) \<le> expiresAt item \<longrightarrow>
                 cached (fst (getNews e c1 w1 ?ps)) = True
               \<and> source (fst (getNews e c1 w1 ?ps)) = ''cache''
               \<and> news (fst (getNews e c1 w1 ?ps)) = news r1)"
      using st hit by (intro exI [of _ ?stored]) simp
  qed
qed

theorem getNews_sports_finance_witness:
  "falsy_key (gnewsApiKey no_providers) \<and> falsy_key (newsApiKey no_providers)
   \<and> fst (get new_Cache (fst (generateKey (Some [''sports'', ''finance'']))) (tick_world 1000)) = None
   \<and> length (news (fst (getNews no_providers new_Cache (tick_world 1000) [''sports'', ''finance'']))) = 4
   \<and> source (fst (getNews no_providers new_Cache (tick_world 1000) [''sports'', ''finance''])) = ''mock''
   \<and> cached (fst (getNews no_providers new_Cache (tick_world 1000) [''sports'', ''finance''])) = False
   \<and> cached (fst (getNews no_providers
        (fst (snd (snd (getNews no_providers new_Cache (tick_world 1000) [''sports'', ''finance'']))))
        (snd (snd (snd (getNews no_providers new_Cache (tick_world 1000) [''sports'', ''finance'']))))
        [''sports'', ''finance''])) = True"
proof -
  let ?ps = "[''sports'', ''finance'']"
  let ?key = "fst (generateKey (Some ?ps))"
  let ?R = "getNews no_providers new_Cache (tick_world 1000) ?ps"
  let ?r1 = "fst ?R" and ?c1 = "fst (snd (snd ?R))" and ?w1 = "snd (snd (snd ?R))"
  have k1: "falsy_key (gnewsApiKey no_providers)" and k2: "falsy_key (newsApiKey no_providers)"
    by (simp_all add: no_providers_def falsy_key_def)
  have miss: "fst (get new_Cache ?key (tick_world 1000)) = None"
    by (rule fresh_miss)
  have first: "?R = (?r1, fst (snd ?R), ?c1, ?w1)" by simp
  note t = getNews_sports_finance [OF k1 k2 miss first]
  have e: "expiresAt (the (cache ?c1 ?key)) = 301004"
    by (simp add: getNews_def generateKey_def get_def new_Cache_def no_providers_def
          fetchFromGNews_def fetchFromNewsAPI_def falsy_key_def no_news_def set_cache_def
          generateMockNews_def tick_world_def Date_now_def Math_random_def config_cache_ttl_def)
  have w: "shd (clock ?w1) = 1006"
    by (simp add: getNews_def generateKey_def get_def new_Cache_def no_providers_def
          fetchFromGNews_def fetchFromNewsAPI_def falsy_key_def no_news_def set_cache_def
          generateMockNews_def tick_world_def Date_now_def Math_random_def config_cache_ttl_def)
  from t obtain item where i: "cache ?c1 ?key = Some item"
    and h: "shd (clock ?w1) \<le> expiresAt item \<longrightarrow> cached (fst (getNews no_providers ?c1 ?w1 ?ps)) = True"
    by blast
  from i e have "expiresAt item = 301004" by simp
  with w h have "cached (fst (getNews no_providers ?c1 ?w1 ?ps)) = True" by simp
  with t k1 k2 miss show ?thesis
    by blast
qed

end
